theory Spec2Isabelle
  imports Complex_Main
begin

section \<open>Python values, exceptions and instances\<close>

text \<open>
  The executable content of \<^verbatim>\<open>notebooks/algorithm_overview.ipynb\<close> is two code
  cells: \<^verbatim>\<open>import numpy as np\<close> and the class \<^verbatim>\<open>QuantumRegister\<close>, whose only
  member is \<^verbatim>\<open>__init__\<close>. Python checks no annotation at run time, so an
  argument is any Python value. A float is kept as significand and binary exponent;
  no operation of the notebook ever reads one.
\<close>

datatype pyval =
    PyNone
  | PyBool bool
  | PyInt int
  | PyFloat int int
  | PyStr string
  | PyList "pyval list"

datatype error = TypeError

text \<open>
  An instance of a class written without \<^verbatim>\<open>__slots__\<close>: the name of its class and
  its attribute dictionary \<^verbatim>\<open>__dict__\<close>.
\<close>

record py_object =
  class_name :: string
  attrs :: "string \<rightharpoonup> pyval"

text \<open>
  \<^verbatim>\<open>object.__new__(cls)\<close>: the class defines no \<^verbatim>\<open>__new__\<close>, so the
  instance starts with an empty attribute dictionary.
\<close>

definition object_new :: "string \<Rightarrow> py_object" where
  "object_new cls = \<lparr>class_name = cls, attrs = Map.empty\<rparr>"

section \<open>The class QuantumRegister\<close>

text \<open>
  \<^verbatim>\<open>
  class QuantumRegister:
      def __init__(self, num_qubits: int, name):
          """
          Initializes a collection of qubits initialized
          to $\ket{0}$

          Args:
              num_qubits (int): the number of qubits in the register
          """
  \<close>
  The body is the docstring alone: an expression statement. No parameter is read, no
  attribute of \<^verbatim>\<open>self\<close> is assigned, and the function falls off its end, returning
  \<^verbatim>\<open>None\<close>. The model returns that value together with \<^verbatim>\<open>self\<close> as the body
  leaves it.
\<close>

definition QuantumRegister_init ::
  "py_object \<Rightarrow> pyval \<Rightarrow> pyval \<Rightarrow> error + (pyval \<times> py_object)" where
  "QuantumRegister_init self num_qubits name = Inr (PyNone, self)"

text \<open>
  The call \<^verbatim>\<open>QuantumRegister(*args)\<close>, as \<^verbatim>\<open>type.__call__\<close> runs it: a new
  instance is allocated, \<^verbatim>\<open>__init__\<close> is bound to it and to the arguments (exactly
  two besides \<^verbatim>\<open>self\<close>, any other count raises \<^verbatim>\<open>TypeError\<close>), an exception of
  \<^verbatim>\<open>__init__\<close> propagates, a result other than \<^verbatim>\<open>None\<close> raises
  \<^verbatim>\<open>TypeError\<close>, and the instance is returned.
\<close>

definition QuantumRegister :: "pyval list \<Rightarrow> error + py_object" where
  "QuantumRegister args =
     (case args of
        [num_qubits, name] \<Rightarrow>
          (case QuantumRegister_init (object_new ''QuantumRegister'') num_qubits name of
             Inl e \<Rightarrow> Inl e
           | Inr (r, self) \<Rightarrow> if r = PyNone then Inr self else Inl TypeError)
      | _ \<Rightarrow> Inl TypeError)"

section \<open>The register invariant\<close>

text \<open>
  The invariant of a register: it holds a statevector over the \<open>2 ^ n\<close> basis states
  of its \<open>n\<close> qubits, and the squared magnitudes of the amplitudes sum to 1 up to a
  tolerance. The notebook fixes neither the attribute that would hold the statevector
  nor the tolerance, so both are parameters. The numbers of \<^typ>\<open>pyval\<close> are read
  exactly: an integer as itself, a boolean as 0 or 1, a float as its significand times
  the power of two; any other value is no amplitude.
\<close>

fun amplitude_sq :: "pyval \<Rightarrow> rat option" where
  "amplitude_sq (PyInt i) = Some ((of_int i)\<^sup>2)"
| "amplitude_sq (PyBool b) = Some (if b then 1 else 0)"
| "amplitude_sq (PyFloat m e) = Some ((of_int m * 2 powi e)\<^sup>2)"
| "amplitude_sq v = None"

definition norm_sq :: "pyval list \<Rightarrow> rat option" where
  "norm_sq amps = map_option sum_list (those (map amplitude_sq amps))"

definition register_invariant :: "rat \<Rightarrow> nat \<Rightarrow> string \<Rightarrow> py_object \<Rightarrow> bool" where
  "register_invariant tol n attr obj =
     (case attrs obj attr of
        Some (PyList amps) \<Rightarrow>
          length amps = 2 ^ n \<and>
          (case norm_sq amps of Some s \<Rightarrow> \<bar>s - 1\<bar> \<le> tol | None \<Rightarrow> False)
      | _ \<Rightarrow> False)"

section \<open>Properties of the constructor\<close>

lemma QuantumRegister_two_args:
  "QuantumRegister [num_qubits, name] = Inr (object_new ''QuantumRegister'')"
  by (simp add: QuantumRegister_def QuantumRegister_init_def)

lemma QuantumRegister_arity:
  "length args \<noteq> 2 \<Longrightarrow> QuantumRegister args = Inl TypeError"
proof (cases args)
  case Nil
  then show ?thesis by (simp add: QuantumRegister_def)
next
  case (Cons a as)
  assume len: "length args \<noteq> 2"
  show ?thesis
  proof (cases as)
    case Nil
    with Cons show ?thesis by (simp add: QuantumRegister_def)
  next
    case (Cons b bs)
    with \<open>args = a # as\<close> len obtain c cs where "bs = c # cs"
      by (cases bs) auto
    with Cons \<open>args = a # as\<close> show ?thesis by (simp add: QuantumRegister_def)
  qed
qed

text \<open>
  The invariant can hold: a one-qubit register whose attribute \<^verbatim>\<open>state\<close> is the
  basis state \<open>|0\<rangle>\<close>, the list \<^verbatim>\<open>[1, 0]\<close>, satisfies it with tolerance
  \<open>10\<^sup>-\<^sup>9\<close>, and so does a float statevector \<^verbatim>\<open>[0.0, 1.0]\<close>.
\<close>

lemma register_invariant_satisfiable:
  "register_invariant (1 / 10 ^ 9) 1 ''state''
     \<lparr>class_name = ''QuantumRegister'', attrs = [''state'' \<mapsto> PyList [PyInt 1, PyInt 0]]\<rparr>"
  "register_invariant (1 / 10 ^ 9) 1 ''state''
     \<lparr>class_name = ''QuantumRegister'', attrs = [''state'' \<mapsto> PyList [PyFloat 0 0, PyFloat 1 0]]\<rparr>"
  by (simp_all add: register_invariant_def norm_sq_def)

text \<open>
  C2, the part of the claim about creation. The claim says that after every register
  operation, creation included, the squared magnitudes of the register's amplitudes sum
  to 1 within tolerance, and the docstring of \<^verbatim>\<open>__init__\<close> says that it
  initialises the qubits to \<open>|0\<rangle>\<close>. The code does not: \<^verbatim>\<open>QuantumRegister(1, 'q')\<close>
  returns an instance whose attribute dictionary is empty, and for every pair of
  arguments the instance returned breaks the invariant, whatever the tolerance, the
  number of qubits and the attribute taken to hold the statevector.
\<close>

theorem QuantumRegister_creation_breaks_invariant:
  "QuantumRegister [PyInt 1, PyStr ''q''] =
     Inr \<lparr>class_name = ''QuantumRegister'', attrs = Map.empty\<rparr> \<and>
   (\<exists>obj. QuantumRegister [num_qubits, name] = Inr obj \<and>
      \<not> register_invariant tol n attr obj)"
proof
  show "QuantumRegister [PyInt 1, PyStr ''q''] =
     Inr \<lparr>class_name = ''QuantumRegister'', attrs = Map.empty\<rparr>"
    by (simp add: QuantumRegister_two_args object_new_def)
next
  have "\<not> register_invariant tol n attr (object_new ''QuantumRegister'')"
    by (simp add: register_invariant_def object_new_def)
  with QuantumRegister_two_args [of num_qubits name]
  show "\<exists>obj. QuantumRegister [num_qubits, name] = Inr obj \<and>
      \<not> register_invariant tol n attr obj"
    by simp
qed

text \<open>
  C9. For every pair of arguments, \<^verbatim>\<open>QuantumRegister(num_qubits, name)\<close> returns an
  object that holds no statevector or amplitude data. The body of \<^verbatim>\<open>__init__\<close> is
  only a docstring: it returns \<^verbatim>\<open>None\<close> and leaves whatever instance it is given as
  it was, so the instance the call returns is the freshly allocated one, of class
  \<^verbatim>\<open>QuantumRegister\<close>, and its attribute dictionary is empty: looking up any
  attribute name finds nothing. The initialisation to the all-zero basis state that the
  docstring describes does not take place.
\<close>

theorem QuantumRegister_holds_no_state:
  "QuantumRegister_init self num_qubits name = Inr (PyNone, self) \<and>
   (\<exists>obj. QuantumRegister [num_qubits, name] = Inr obj \<and>
      class_name obj = ''QuantumRegister'' \<and>
      dom (attrs obj) = {} \<and> attrs obj attribute = None)"
proof
  show "QuantumRegister_init self num_qubits name = Inr (PyNone, self)"
    by (simp add: QuantumRegister_init_def)
next
  have "class_name (object_new ''QuantumRegister'') = ''QuantumRegister''"
    and "attrs (object_new ''QuantumRegister'') = Map.empty"
    by (simp_all add: object_new_def)
  with QuantumRegister_two_args [of num_qubits name]
  show "\<exists>obj. QuantumRegister [num_qubits, name] = Inr obj \<and>
      class_name obj = ''QuantumRegister'' \<and>
      dom (attrs obj) = {} \<and> attrs obj attribute = None"
    by simp
qed

text \<open>
  C10. \<^verbatim>\<open>QuantumRegister.__init__\<close> validates nothing and never raises: for every
  value of \<^verbatim>\<open>num_qubits\<close> (an integer of any sign, zero, a float, a string,
  \<^verbatim>\<open>None\<close>, a list) and every value of \<^verbatim>\<open>name\<close>, \<^verbatim>\<open>__init__\<close> returns
  normally on any instance and the construction succeeds. The values of the arguments
  never matter: the call raises exactly when it is not given two arguments, which is
  the interpreter's binding of the parameters and no check of the class.
\<close>

theorem QuantumRegister_never_raises:
  "(\<exists>r. QuantumRegister_init self num_qubits name = Inr r) \<and>
   (\<exists>obj. QuantumRegister [num_qubits, name] = Inr obj) \<and>
   ((\<exists>e. QuantumRegister args = Inl e) \<longleftrightarrow> length args \<noteq> 2)"
proof (intro conjI)
  show "\<exists>r. QuantumRegister_init self num_qubits name = Inr r"
    by (simp add: QuantumRegister_init_def)
next
  show "\<exists>obj. QuantumRegister [num_qubits, name] = Inr obj"
    by (simp add: QuantumRegister_two_args)
next
  show "(\<exists>e. QuantumRegister args = Inl e) \<longleftrightarrow> length args \<noteq> 2"
  proof
    assume raised: "\<exists>e. QuantumRegister args = Inl e"
    show "length args \<noteq> 2"
    proof
      assume "length args = 2"
      then obtain a b where "args = [a, b]"
        by (cases args; cases "tl args") auto
      with raised show False by (simp add: QuantumRegister_two_args)
    qed
  next
    assume "length args \<noteq> 2"
    then show "\<exists>e. QuantumRegister args = Inl e"
      by (simp add: QuantumRegister_arity)
  qed
qed

end
